theory Spec2Isabelle
  imports Main "HOL-Library.Sublist"
begin

section \<open>The front-matter annotator of scripts/lib/api/addFrontMatter.ts\<close>

text \<open>
  \<open>addFrontMatter(results, pkg)\<close> walks over an array of converted pages and overwrites the
  \<open>markdown\<close> field of each page object with a front-matter header followed by the old
  text. The header is chosen by an \<open>if\<close> / \<open>else if\<close> chain over the page's metadata.

  Strings are \<open>string\<close> (lists of characters). The function only concatenates strings and
  tests them for emptiness, so the choice of character encoding does not matter to it.
\<close>

subsection \<open>Data\<close>

text \<open>Modelled from the spec: the declarations of \<open>HtmlToMdResult\<close> (with its \<open>meta\<close>
  object) and of \<open>Pkg\<close> are imported from \<open>./HtmlToMdResult\<close> and \<open>./Pkg\<close>, which are not
  among the sources. The records hold the fields that \<open>addFrontMatter\<close> reads, under the
  names the code uses. Their types follow the spec's data model: the page text and the
  package title and version are strings, \<open>isReleaseNotes\<close> and \<open>hasSeparateReleaseNotes\<close>
  are booleans, and \<open>hardcodedFrontmatter\<close>, \<open>apiName\<close> and \<open>apiType\<close> are entries of the
  metadata that may be absent: \<open>None\<close> is JavaScript's \<open>undefined\<close>. The code tests the
  three entries one after the other and does not assume that only one is present, so they
  are three optional fields of one record. The function is generic in
  \<open>T extends HtmlToMdResult\<close>; the record scheme \<open>'a HtmlToMdResult_scheme\<close> is a page with
  any further fields.
\<close>

record Metadata =
  hardcodedFrontmatter :: "string option"
  apiName :: "string option"
  apiType :: "string option"

record HtmlToMdResult =
  markdown :: string
  meta :: Metadata
  isReleaseNotes :: bool

record Pkg =
  title :: string
  versionWithoutPatch :: string
  hasSeparateReleaseNotes :: bool

subsection \<open>JavaScript's reading of an optional string\<close>

text \<open>
  \<open>if (v)\<close> on an optional string: \<open>undefined\<close> and the empty string are falsy, every
  other string is truthy.
\<close>

definition truthy :: "string option \<Rightarrow> bool" where
  "truthy v = (case v of None \<Rightarrow> False | Some s \<Rightarrow> s \<noteq> [])"

text \<open>
  \<open>${v}\<close> inside a template literal: a string is inserted as it is, \<open>undefined\<close> is
  rendered as the text \<open>undefined\<close>.
\<close>

definition interpolate :: "string option \<Rightarrow> string" where
  "interpolate v = (case v of None \<Rightarrow> ''undefined'' | Some s \<Rightarrow> s)"

subsection \<open>The helper imported from stringUtils\<close>

text \<open>Modelled from the spec: \<open>getLastPartFromFullIdentifier\<close> is imported from
  \<open>../stringUtils\<close>, which is not among the sources. The spec describes its result as
  ``the last dot-delimited segment of the fully qualified symbol name (e.g. a.b.C gives C)'':
  the text after the last dot, or the whole name when it has no dot.
\<close>

definition getLastPartFromFullIdentifier :: "string \<Rightarrow> string" where
  "getLastPartFromFullIdentifier fullIdentifierName =
     rev (takeWhile (\<lambda>c. c \<noteq> CHR ''.'') (rev fullIdentifierName))"

subsection \<open>The body of the loop\<close>

text \<open>
  One iteration of \<open>for (let result of results)\<close>, on the page object \<open>result\<close>. Each
  template literal of the source begins right after the opening backquote and ends with the
  line break before the closing backquote, so every rendered text ends with a newline
  after the old markdown. Inside a branch the tested field is a non-empty string, and
  \<open>interpolate\<close> gives that string, also where the source passes \<open>apiName\<close> to
  \<open>getLastPartFromFullIdentifier\<close>.
\<close>

definition addFrontMatter_body :: "Pkg \<Rightarrow> 'a HtmlToMdResult_scheme \<Rightarrow> 'a HtmlToMdResult_scheme" where
  "addFrontMatter_body pkg result =
    (let markdown0 = markdown result in
     if truthy (hardcodedFrontmatter (meta result)) then
       result\<lparr>markdown :=
         ''---\<newline>'' @
         interpolate (hardcodedFrontmatter (meta result)) @ ''\<newline>'' @
         ''---\<newline>'' @
         ''\<newline>'' @
         markdown0 @ ''\<newline>''\<rparr>
     else if truthy (apiName (meta result)) then
       result\<lparr>markdown :=
         ''---\<newline>'' @
         ''title: '' @ getLastPartFromFullIdentifier (interpolate (apiName (meta result))) @ ''\<newline>'' @
         ''description: API reference for '' @ interpolate (apiName (meta result)) @ ''\<newline>'' @
         ''in_page_toc_min_heading_level: 1\<newline>'' @
         ''python_api_type: '' @ interpolate (apiType (meta result)) @ ''\<newline>'' @
         ''python_api_name: '' @ interpolate (apiName (meta result)) @ ''\<newline>'' @
         ''---\<newline>'' @
         ''\<newline>'' @
         markdown0 @ ''\<newline>''\<rparr>
     else if isReleaseNotes result then
       (let versionStr =
              (if hasSeparateReleaseNotes pkg then '' '' @ versionWithoutPatch pkg else '''');
            descriptionSuffix =
              (if hasSeparateReleaseNotes pkg then ''in '' @ title pkg @ versionStr
               else ''to '' @ title pkg)
        in result\<lparr>markdown :=
             ''---\<newline>'' @
             ''title: '' @ title pkg @ versionStr @ '' release notes\<newline>'' @
             ''description: Changes made '' @ descriptionSuffix @ ''\<newline>'' @
             ''in_page_toc_max_heading_level: 2\<newline>'' @
             ''---\<newline>'' @
             ''\<newline>'' @
             markdown0 @ ''\<newline>''\<rparr>)
     else result)"

subsection \<open>The loop over the array\<close>

text \<open>
  The array holds references to page objects, and the loop assigns to a field of the object
  behind each reference. The objects live in a store, \<open>results\<close> is the list of references
  in array order, and the function returns the store after the loop. The array itself and
  \<open>pkg\<close> are only read: the source has no assignment to either.
\<close>

type_synonym ref = nat

fun addFrontMatter ::
  "(ref \<Rightarrow> 'a HtmlToMdResult_scheme) \<Rightarrow> ref list \<Rightarrow> Pkg \<Rightarrow> (ref \<Rightarrow> 'a HtmlToMdResult_scheme)" where
  "addFrontMatter store [] pkg = store"
| "addFrontMatter store (r # results) pkg =
     addFrontMatter (store(r := addFrontMatter_body pkg (store r))) results pkg"

subsection \<open>The three rendered texts\<close>

text \<open>
  The text each annotating branch assigns to \<open>markdown\<close>, as a function of the values its
  template interpolates. The loop body above keeps the templates inline, as the source
  does; these names are used in statements about which branch runs.
\<close>

definition hardcodedText :: "string \<Rightarrow> string \<Rightarrow> string" where
  "hardcodedText hf md = ''---\<newline>'' @ hf @ ''\<newline>---\<newline>\<newline>'' @ md @ ''\<newline>''"

definition apiText :: "string \<Rightarrow> string option \<Rightarrow> string \<Rightarrow> string" where
  "apiText name ty md =
     ''---\<newline>title: '' @ getLastPartFromFullIdentifier name @
     ''\<newline>description: API reference for '' @ name @
     ''\<newline>in_page_toc_min_heading_level: 1\<newline>python_api_type: '' @ interpolate ty @
     ''\<newline>python_api_name: '' @ name @ ''\<newline>---\<newline>\<newline>'' @ md @ ''\<newline>''"

definition releaseNotesText :: "Pkg \<Rightarrow> string \<Rightarrow> string" where
  "releaseNotesText pkg md =
     (if hasSeparateReleaseNotes pkg then
        ''---\<newline>title: '' @ title pkg @ '' '' @ versionWithoutPatch pkg @
        '' release notes\<newline>description: Changes made in '' @ title pkg @ '' '' @
        versionWithoutPatch pkg @
        ''\<newline>in_page_toc_max_heading_level: 2\<newline>---\<newline>\<newline>'' @ md @ ''\<newline>''
      else
        ''---\<newline>title: '' @ title pkg @
        '' release notes\<newline>description: Changes made to '' @ title pkg @
        ''\<newline>in_page_toc_max_heading_level: 2\<newline>---\<newline>\<newline>'' @ md @ ''\<newline>'')"

section \<open>Basic facts\<close>

lemma truthy_Some: "truthy (Some s) = (s \<noteq> [])"
  by (simp add: truthy_def)

lemma truthy_None: "truthy None = False"
  by (simp add: truthy_def)

lemma body_meta: "meta (addFrontMatter_body pkg x) = meta x"
  by (simp add: addFrontMatter_body_def Let_def)

lemma body_isReleaseNotes: "isReleaseNotes (addFrontMatter_body pkg x) = isReleaseNotes x"
  by (simp add: addFrontMatter_body_def Let_def)

lemma body_more: "HtmlToMdResult.more (addFrontMatter_body pkg x) = HtmlToMdResult.more x"
  by (simp add: addFrontMatter_body_def Let_def)

lemma body_hardcoded:
  "truthy (hardcodedFrontmatter (meta x)) \<Longrightarrow>
   markdown (addFrontMatter_body pkg x) =
     hardcodedText (interpolate (hardcodedFrontmatter (meta x))) (markdown x)"
  by (simp add: addFrontMatter_body_def Let_def hardcodedText_def)

lemma body_api:
  "\<not> truthy (hardcodedFrontmatter (meta x)) \<Longrightarrow> truthy (apiName (meta x)) \<Longrightarrow>
   markdown (addFrontMatter_body pkg x) =
     apiText (interpolate (apiName (meta x))) (apiType (meta x)) (markdown x)"
  by (simp add: addFrontMatter_body_def Let_def apiText_def)

lemma body_releaseNotes:
  "\<not> truthy (hardcodedFrontmatter (meta x)) \<Longrightarrow> \<not> truthy (apiName (meta x)) \<Longrightarrow>
   isReleaseNotes x \<Longrightarrow>
   markdown (addFrontMatter_body pkg x) = releaseNotesText pkg (markdown x)"
  by (simp add: addFrontMatter_body_def Let_def releaseNotesText_def)

lemma body_passthrough:
  "\<not> truthy (hardcodedFrontmatter (meta x)) \<Longrightarrow> \<not> truthy (apiName (meta x)) \<Longrightarrow>
   \<not> isReleaseNotes x \<Longrightarrow> addFrontMatter_body pkg x = x"
  by (simp add: addFrontMatter_body_def Let_def)

text \<open>
  What the loop does to one page: the loop body is applied to it once for each time the
  array lists it.
\<close>

lemma addFrontMatter_count:
  "addFrontMatter store results pkg r = (addFrontMatter_body pkg ^^ count_list results r) (store r)"
proof (induction results arbitrary: store)
  case Nil
  show ?case by simp
next
  case (Cons x xs)
  show ?case
  proof (cases "x = r")
    case True
    then show ?thesis by (simp add: Cons.IH funpow_swap1)
  next
    case False
    then show ?thesis by (simp add: Cons.IH)
  qed
qed

lemma addFrontMatter_once:
  "count_list results r = 1 \<Longrightarrow>
   addFrontMatter store results pkg r = addFrontMatter_body pkg (store r)"
  by (simp add: addFrontMatter_count)

lemma count_list_distinct: "distinct xs \<Longrightarrow> x \<in> set xs \<Longrightarrow> count_list xs x = 1"
  by (induction xs) (auto simp: count_notin)

lemma getLastPart_after_dot:
  "CHR ''.'' \<notin> set seg \<Longrightarrow> getLastPartFromFullIdentifier (pre @ ''.'' @ seg) = seg"
  by (simp add: getLastPartFromFullIdentifier_def takeWhile_append)

lemma getLastPart_no_dot:
  "CHR ''.'' \<notin> set s \<Longrightarrow> getLastPartFromFullIdentifier s = s"
proof -
  assume "CHR ''.'' \<notin> set s"
  then have "takeWhile (\<lambda>c. c \<noteq> CHR ''.'') (rev s) = rev s"
    by (auto simp: takeWhile_eq_all_conv)
  then show ?thesis
    by (simp only: getLastPartFromFullIdentifier_def rev_rev_ident)
qed

lemma interpolate_Some: "interpolate (Some s) = s"
  by (simp add: interpolate_def)

lemma funpow_fixed: "f x = x \<Longrightarrow> (f ^^ n) x = x"
  by (induction n) simp_all

lemma addFrontMatter_meta: "meta (addFrontMatter store results pkg r) = meta (store r)"
proof -
  have "meta ((addFrontMatter_body pkg ^^ n) x) = meta x" for n and x :: "'a HtmlToMdResult_scheme"
    by (induction n) (simp_all add: body_meta)
  then show ?thesis by (simp add: addFrontMatter_count)
qed

lemma addFrontMatter_isReleaseNotes:
  "isReleaseNotes (addFrontMatter store results pkg r) = isReleaseNotes (store r)"
proof -
  have "isReleaseNotes ((addFrontMatter_body pkg ^^ n) x) = isReleaseNotes x"
    for n and x :: "'a HtmlToMdResult_scheme"
    by (induction n) (simp_all add: body_isReleaseNotes)
  then show ?thesis by (simp add: addFrontMatter_count)
qed

lemma addFrontMatter_more:
  "HtmlToMdResult.more (addFrontMatter store results pkg r) = HtmlToMdResult.more (store r)"
proof -
  have "HtmlToMdResult.more ((addFrontMatter_body pkg ^^ n) x) = HtmlToMdResult.more x"
    for n and x :: "'a HtmlToMdResult_scheme"
    by (induction n) (simp_all add: body_more)
  then show ?thesis by (simp add: addFrontMatter_count)
qed

text \<open>
  Each rendered text is longer than the markdown it is built around, and the texts of the
  API-symbol and release-notes branches differ from what the hardcoded or the API-symbol
  template would give for an empty string.
\<close>

lemma hardcodedText_longer: "hardcodedText hf md \<noteq> md"
proof
  assume "hardcodedText hf md = md"
  then have "length (hardcodedText hf md) = length md" by simp
  then show False by (simp add: hardcodedText_def)
qed

lemma apiText_longer: "apiText name ty md \<noteq> md"
proof
  assume "apiText name ty md = md"
  then have "length (apiText name ty md) = length md" by simp
  then show False by (simp add: apiText_def)
qed

lemma releaseNotesText_longer: "releaseNotesText pkg md \<noteq> md"
proof
  assume "releaseNotesText pkg md = md"
  then have "length (releaseNotesText pkg md) = length md" by simp
  then show False by (simp add: releaseNotesText_def split: if_splits)
qed

lemma apiText_not_hardcodedText_empty: "apiText name ty md \<noteq> hardcodedText [] md'"
  by (simp add: apiText_def hardcodedText_def)

lemma releaseNotesText_not_hardcodedText_empty: "releaseNotesText pkg md \<noteq> hardcodedText [] md'"
  by (simp add: releaseNotesText_def hardcodedText_def)

lemma releaseNotesText_not_apiText_empty: "releaseNotesText pkg md \<noteq> apiText [] ty md"
proof
  let ?S = "''\<newline>---\<newline>\<newline>'' @ md @ ''\<newline>''"
  assume eq: "releaseNotesText pkg md = apiText [] ty md"
  obtain A where rn: "releaseNotesText pkg md = (A @ ''2'') @ ?S"
  proof (cases "hasSeparateReleaseNotes pkg")
    case True
    show ?thesis
      by (rule that [of "''---\<newline>title: '' @ title pkg @ '' '' @ versionWithoutPatch pkg @
          '' release notes\<newline>description: Changes made in '' @ title pkg @ '' '' @
          versionWithoutPatch pkg @ ''\<newline>in_page_toc_max_heading_level: ''"])
        (simp add: releaseNotesText_def True)
  next
    case False
    show ?thesis
      by (rule that [of "''---\<newline>title: '' @ title pkg @
          '' release notes\<newline>description: Changes made to '' @ title pkg @
          ''\<newline>in_page_toc_max_heading_level: ''"])
        (simp add: releaseNotesText_def False)
  qed
  have api: "apiText [] ty md =
      ((''---\<newline>title: '' @ getLastPartFromFullIdentifier [] @
        ''\<newline>description: API reference for \<newline>in_page_toc_min_heading_level: 1\<newline>python_api_type: '' @
        interpolate ty @ ''\<newline>python_api_name:'') @ '' '') @ ?S"
    by (simp add: apiText_def)
  from eq have "A @ ''2'' = (''---\<newline>title: '' @ getLastPartFromFullIdentifier [] @
        ''\<newline>description: API reference for \<newline>in_page_toc_min_heading_level: 1\<newline>python_api_type: '' @
        interpolate ty @ ''\<newline>python_api_name:'') @ '' ''"
    unfolding rn api by (simp only: append_same_eq)
  then show False
    by (simp only: append1_eq_conv) simp
qed

section \<open>The claims\<close>

text \<open>
  In the statements below \<open>store\<close> is the store before the call, \<open>results\<close> the array
  and \<open>r\<close> a reference to a page object. \<open>count_list results r = 1\<close> says that the
  array lists the page \<open>r\<close> once, so that the loop visits it once. A field is ``set''
  when the test of the source's \<open>if\<close> finds it so: present and not the empty string.
\<close>

subsection \<open>C1: the hardcoded branch\<close>

text \<open>
  C1, as amended: for every page whose metadata has \<open>hardcodedFrontmatter\<close> set, whatever
  the other metadata fields, the release-notes flag and the package are, the markdown after
  \<open>addFrontMatter\<close> is the three dashes and a newline, the hardcoded text, a newline, three
  dashes, two newlines, the markdown before the call, and one final newline.
\<close>

theorem hardcoded_body:
  assumes "count_list results r = 1"
    and "hardcodedFrontmatter (meta (store r)) = Some hf" and "hf \<noteq> []"
  shows "markdown (addFrontMatter store results pkg r) =
           ''---\<newline>'' @ hf @ ''\<newline>---\<newline>\<newline>'' @ markdown (store r) @ ''\<newline>''"
proof -
  from assms(2,3) have t: "truthy (hardcodedFrontmatter (meta (store r)))"
    by (simp add: truthy_Some)
  from assms(2) have "interpolate (hardcodedFrontmatter (meta (store r))) = hf"
    by (simp add: interpolate_def)
  with body_hardcoded [OF t, of pkg] assms(1) show ?thesis
    by (simp add: addFrontMatter_once hardcodedText_def)
qed

text \<open>
  An instance: a hand-written header on a page that also names an API symbol and is flagged
  as release notes.
\<close>

theorem hardcoded_body_witness:
  "markdown (addFrontMatter
      (\<lambda>_. \<lparr>markdown = ''# Hi'',
             meta = \<lparr>hardcodedFrontmatter = Some ''title: Hand written'', apiName = Some ''a.b.C'',
                     apiType = Some ''class''\<rparr>,
             isReleaseNotes = True\<rparr>)
      [0] \<lparr>title = ''Qiskit'', versionWithoutPatch = ''0.45'', hasSeparateReleaseNotes = True\<rparr> 0)
   = ''---\<newline>title: Hand written\<newline>---\<newline>\<newline># Hi\<newline>''"
  using hardcoded_body [of "[0]" 0
      "\<lambda>_. \<lparr>markdown = ''# Hi'',
             meta = \<lparr>hardcodedFrontmatter = Some ''title: Hand written'', apiName = Some ''a.b.C'',
                     apiType = Some ''class''\<rparr>,
             isReleaseNotes = True\<rparr>"
      "''title: Hand written''"
      "\<lparr>title = ''Qiskit'', versionWithoutPatch = ''0.45'', hasSeparateReleaseNotes = True\<rparr>"]
  by simp

text \<open>
  C1 as the spec words it leaves out the final newline: on this page the markdown after the
  call is not the header followed by the old markdown alone.
\<close>

theorem hardcoded_body_counterexample:
  "markdown (addFrontMatter
      (\<lambda>_. \<lparr>markdown = ''# Hi'',
             meta = \<lparr>hardcodedFrontmatter = Some ''title: Hand written'', apiName = None,
                     apiType = None\<rparr>,
             isReleaseNotes = False\<rparr>)
      [0] \<lparr>title = ''Qiskit'', versionWithoutPatch = ''0.45'', hasSeparateReleaseNotes = True\<rparr> 0)
   \<noteq> ''---\<newline>'' @ ''title: Hand written'' @ ''\<newline>---\<newline>\<newline>'' @ ''# Hi''
   \<and>
   markdown (addFrontMatter
      (\<lambda>_. \<lparr>markdown = ''# Hi'',
             meta = \<lparr>hardcodedFrontmatter = Some ''title: Hand written'', apiName = None,
                     apiType = None\<rparr>,
             isReleaseNotes = False\<rparr>)
      [0] \<lparr>title = ''Qiskit'', versionWithoutPatch = ''0.45'', hasSeparateReleaseNotes = True\<rparr> 0)
   = ''---\<newline>'' @ ''title: Hand written'' @ ''\<newline>---\<newline>\<newline>'' @ ''# Hi'' @ ''\<newline>''"
  by (simp add: addFrontMatter_body_def truthy_def interpolate_def)

subsection \<open>C2: the API-symbol branch\<close>

text \<open>
  C2: for every page whose \<open>hardcodedFrontmatter\<close> is not set and whose \<open>apiName\<close> and
  \<open>apiType\<close> are set, the new markdown begins with a header between two lines of three
  dashes that holds five \<open>key: value\<close> lines in this order: \<open>title\<close> with the last
  dot-delimited segment of \<open>apiName\<close>, \<open>description\<close> with \<open>API reference for\<close> and
  \<open>apiName\<close>, \<open>in_page_toc_min_heading_level\<close> with 1, \<open>python_api_type\<close> with
  \<open>apiType\<close> and \<open>python_api_name\<close> with \<open>apiName\<close>. A blank line, the old markdown
  and a newline follow. The title is the text after the last dot of the name, and the whole
  name when it has no dot.
\<close>

theorem api_symbol_body:
  assumes "count_list results r = 1"
    and "\<not> truthy (hardcodedFrontmatter (meta (store r)))"
    and "apiName (meta (store r)) = Some name" and "name \<noteq> []"
    and "apiType (meta (store r)) = Some ty"
  shows "markdown (addFrontMatter store results pkg r) =
           ''---\<newline>'' @
           ''title: '' @ getLastPartFromFullIdentifier name @ ''\<newline>'' @
           ''description: API reference for '' @ name @ ''\<newline>'' @
           ''in_page_toc_min_heading_level: 1\<newline>'' @
           ''python_api_type: '' @ ty @ ''\<newline>'' @
           ''python_api_name: '' @ name @ ''\<newline>'' @
           ''---\<newline>'' @
           ''\<newline>'' @
           markdown (store r) @ ''\<newline>''
         \<and> (\<forall>pre seg. name = pre @ ''.'' @ seg \<and> CHR ''.'' \<notin> set seg \<longrightarrow>
                getLastPartFromFullIdentifier name = seg)
         \<and> (CHR ''.'' \<notin> set name \<longrightarrow> getLastPartFromFullIdentifier name = name)"
proof -
  from assms(3,4) have t: "truthy (apiName (meta (store r)))"
    by (simp add: truthy_Some)
  have "markdown (addFrontMatter store results pkg r) = apiText name (Some ty) (markdown (store r))"
    using body_api [OF assms(2) t, of pkg] assms(1,3,5)
    by (simp add: addFrontMatter_once interpolate_Some)
  then have body_eq: "markdown (addFrontMatter store results pkg r) =
           ''---\<newline>'' @
           ''title: '' @ getLastPartFromFullIdentifier name @ ''\<newline>'' @
           ''description: API reference for '' @ name @ ''\<newline>'' @
           ''in_page_toc_min_heading_level: 1\<newline>'' @
           ''python_api_type: '' @ ty @ ''\<newline>'' @
           ''python_api_name: '' @ name @ ''\<newline>'' @
           ''---\<newline>'' @
           ''\<newline>'' @
           markdown (store r) @ ''\<newline>''"
    by (simp only: apiText_def interpolate_Some) simp
  have seg: "\<forall>pre seg. name = pre @ ''.'' @ seg \<and> CHR ''.'' \<notin> set seg \<longrightarrow>
                getLastPartFromFullIdentifier name = seg"
    using getLastPart_after_dot by blast
  have whole: "CHR ''.'' \<notin> set name \<longrightarrow> getLastPartFromFullIdentifier name = name"
    using getLastPart_no_dot by blast
  from body_eq seg whole show ?thesis by (intro conjI)
qed

text \<open>
  The spec's scenario: the page \<open># Hi\<close> of \<open>qiskit.circuit.Measure\<close>, a class, gets the
  header of the spec, and the new markdown starts with the text the spec gives. A page
  of \<open>pkg.mod.Thing\<close> gets the title \<open>Thing\<close>.
\<close>

theorem api_symbol_body_witness:
  "markdown (addFrontMatter
      (\<lambda>_. \<lparr>markdown = ''# Hi'',
             meta = \<lparr>hardcodedFrontmatter = None, apiName = Some ''qiskit.circuit.Measure'',
                     apiType = Some ''class''\<rparr>,
             isReleaseNotes = False\<rparr>)
      [0] \<lparr>title = ''Qiskit'', versionWithoutPatch = ''0.45'', hasSeparateReleaseNotes = True\<rparr> 0)
   = ''---\<newline>title: Measure\<newline>description: API reference for qiskit.circuit.Measure\<newline>in_page_toc_min_heading_level: 1\<newline>python_api_type: class\<newline>python_api_name: qiskit.circuit.Measure\<newline>---\<newline>\<newline># Hi\<newline>''
   \<and>
   prefix ''---\<newline>title: Measure\<newline>description: API reference for qiskit.circuit.Measure\<newline>in_page_toc_min_heading_level: 1\<newline>python_api_type: class\<newline>python_api_name: qiskit.circuit.Measure\<newline>---\<newline>\<newline># Hi''
     (markdown (addFrontMatter
      (\<lambda>_. \<lparr>markdown = ''# Hi'',
             meta = \<lparr>hardcodedFrontmatter = None, apiName = Some ''qiskit.circuit.Measure'',
                     apiType = Some ''class''\<rparr>,
             isReleaseNotes = False\<rparr>)
      [0] \<lparr>title = ''Qiskit'', versionWithoutPatch = ''0.45'', hasSeparateReleaseNotes = True\<rparr> 0))
   \<and>
   markdown (addFrontMatter
      (\<lambda>_. \<lparr>markdown = ''text'',
             meta = \<lparr>hardcodedFrontmatter = Some [], apiName = Some ''pkg.mod.Thing'',
                     apiType = Some ''class''\<rparr>,
             isReleaseNotes = True\<rparr>)
      [0] \<lparr>title = ''Qiskit'', versionWithoutPatch = ''0.45'', hasSeparateReleaseNotes = False\<rparr> 0)
   = ''---\<newline>title: Thing\<newline>description: API reference for pkg.mod.Thing\<newline>in_page_toc_min_heading_level: 1\<newline>python_api_type: class\<newline>python_api_name: pkg.mod.Thing\<newline>---\<newline>\<newline>text\<newline>''"
  using
    api_symbol_body [of "[0]" 0
      "\<lambda>_. \<lparr>markdown = ''# Hi'',
             meta = \<lparr>hardcodedFrontmatter = None, apiName = Some ''qiskit.circuit.Measure'',
                     apiType = Some ''class''\<rparr>,
             isReleaseNotes = False\<rparr>"
      "''qiskit.circuit.Measure''" "''class''"
      "\<lparr>title = ''Qiskit'', versionWithoutPatch = ''0.45'', hasSeparateReleaseNotes = True\<rparr>"]
    api_symbol_body [of "[0]" 0
      "\<lambda>_. \<lparr>markdown = ''text'',
             meta = \<lparr>hardcodedFrontmatter = Some [], apiName = Some ''pkg.mod.Thing'',
                     apiType = Some ''class''\<rparr>,
             isReleaseNotes = True\<rparr>"
      "''pkg.mod.Thing''" "''class''"
      "\<lparr>title = ''Qiskit'', versionWithoutPatch = ''0.45'', hasSeparateReleaseNotes = False\<rparr>"]
  by (simp add: truthy_None truthy_Some getLastPartFromFullIdentifier_def)

subsection \<open>C3: the release-notes branch\<close>

text \<open>
  C3: for every page with neither \<open>hardcodedFrontmatter\<close> nor \<open>apiName\<close> set and
  \<open>isReleaseNotes\<close> true: when the package has separate release notes, the title is the
  package title, the version without patch and \<open>release notes\<close>, and the description is
  \<open>Changes made in\<close> with the package title and that version; otherwise the title is the
  package title and \<open>release notes\<close>, with no version, and the description is
  \<open>Changes made to\<close> with the package title. In both cases the header has the line
  \<open>in_page_toc_max_heading_level: 2\<close>.
\<close>

theorem release_notes_body:
  assumes "count_list results r = 1"
    and "\<not> truthy (hardcodedFrontmatter (meta (store r)))"
    and "\<not> truthy (apiName (meta (store r)))"
    and "isReleaseNotes (store r)"
  shows "(hasSeparateReleaseNotes pkg \<longrightarrow>
            markdown (addFrontMatter store results pkg r) =
              ''---\<newline>'' @
              ''title: '' @ title pkg @ '' '' @ versionWithoutPatch pkg @ '' release notes\<newline>'' @
              ''description: Changes made in '' @ title pkg @ '' '' @ versionWithoutPatch pkg @ ''\<newline>'' @
              ''in_page_toc_max_heading_level: 2\<newline>'' @
              ''---\<newline>'' @
              ''\<newline>'' @
              markdown (store r) @ ''\<newline>'')
       \<and> (\<not> hasSeparateReleaseNotes pkg \<longrightarrow>
            markdown (addFrontMatter store results pkg r) =
              ''---\<newline>'' @
              ''title: '' @ title pkg @ '' release notes\<newline>'' @
              ''description: Changes made to '' @ title pkg @ ''\<newline>'' @
              ''in_page_toc_max_heading_level: 2\<newline>'' @
              ''---\<newline>'' @
              ''\<newline>'' @
              markdown (store r) @ ''\<newline>'')"
proof -
  have "markdown (addFrontMatter store results pkg r) = releaseNotesText pkg (markdown (store r))"
    using body_releaseNotes [OF assms(2,3,4), of pkg] assms(1)
    by (simp add: addFrontMatter_once)
  then show ?thesis
    by (simp only: releaseNotesText_def) simp
qed

text \<open>
  The spec's example, Qiskit 0.45, with separate release notes and without.
\<close>

theorem release_notes_body_witness:
  "markdown (addFrontMatter
      (\<lambda>_. \<lparr>markdown = ''# Notes'',
             meta = \<lparr>hardcodedFrontmatter = None, apiName = None, apiType = None\<rparr>,
             isReleaseNotes = True\<rparr>)
      [0] \<lparr>title = ''Qiskit'', versionWithoutPatch = ''0.45'', hasSeparateReleaseNotes = True\<rparr> 0)
   = ''---\<newline>title: Qiskit 0.45 release notes\<newline>description: Changes made in Qiskit 0.45\<newline>in_page_toc_max_heading_level: 2\<newline>---\<newline>\<newline># Notes\<newline>''
   \<and>
   markdown (addFrontMatter
      (\<lambda>_. \<lparr>markdown = ''# Notes'',
             meta = \<lparr>hardcodedFrontmatter = None, apiName = None, apiType = None\<rparr>,
             isReleaseNotes = True\<rparr>)
      [0] \<lparr>title = ''Qiskit'', versionWithoutPatch = ''0.45'', hasSeparateReleaseNotes = False\<rparr> 0)
   = ''---\<newline>title: Qiskit release notes\<newline>description: Changes made to Qiskit\<newline>in_page_toc_max_heading_level: 2\<newline>---\<newline>\<newline># Notes\<newline>''"
  using
    release_notes_body [of "[0]" 0
      "\<lambda>_. \<lparr>markdown = ''# Notes'',
             meta = \<lparr>hardcodedFrontmatter = None, apiName = None, apiType = None\<rparr>,
             isReleaseNotes = True\<rparr>"
      "\<lparr>title = ''Qiskit'', versionWithoutPatch = ''0.45'', hasSeparateReleaseNotes = True\<rparr>"]
    release_notes_body [of "[0]" 0
      "\<lambda>_. \<lparr>markdown = ''# Notes'',
             meta = \<lparr>hardcodedFrontmatter = None, apiName = None, apiType = None\<rparr>,
             isReleaseNotes = True\<rparr>"
      "\<lparr>title = ''Qiskit'', versionWithoutPatch = ''0.45'', hasSeparateReleaseNotes = False\<rparr>"]
  by (simp add: truthy_None)

subsection \<open>C4: no branch matches\<close>

text \<open>
  C4: for every page with \<open>hardcodedFrontmatter\<close> not set, \<open>apiName\<close> not set and
  \<open>isReleaseNotes\<close> false, the markdown after \<open>addFrontMatter\<close> is the markdown before
  it; the whole page object is as it was, however often the array lists it.
\<close>

theorem passthrough_body:
  assumes "\<not> truthy (hardcodedFrontmatter (meta (store r)))"
    and "\<not> truthy (apiName (meta (store r)))"
    and "\<not> isReleaseNotes (store r)"
  shows "markdown (addFrontMatter store results pkg r) = markdown (store r)
       \<and> addFrontMatter store results pkg r = store r"
  using body_passthrough [OF assms, of pkg]
  by (simp add: addFrontMatter_count funpow_fixed)

text \<open>
  A plain page that the array lists twice.
\<close>

theorem passthrough_body_witness:
  "markdown (addFrontMatter
      (\<lambda>_. \<lparr>markdown = ''# Plain page'',
             meta = \<lparr>hardcodedFrontmatter = None, apiName = None, apiType = Some ''class''\<rparr>,
             isReleaseNotes = False\<rparr>)
      [0, 1, 0] \<lparr>title = ''Qiskit'', versionWithoutPatch = ''0.45'', hasSeparateReleaseNotes = True\<rparr> 0)
   = ''# Plain page''"
  using passthrough_body [of
      "\<lambda>_. \<lparr>markdown = ''# Plain page'',
             meta = \<lparr>hardcodedFrontmatter = None, apiName = None, apiType = Some ''class''\<rparr>,
             isReleaseNotes = False\<rparr>" 0 "[0, 1, 0]"
      "\<lparr>title = ''Qiskit'', versionWithoutPatch = ''0.45'', hasSeparateReleaseNotes = True\<rparr>"]
  by (simp add: truthy_None)

subsection \<open>C5: the order of the tests\<close>

text \<open>
  C5: the cases are tried in the order hardcoded, API symbol, release notes, and the first
  that matches decides. A page with \<open>hardcodedFrontmatter\<close> set gets the hardcoded text
  (the hand-written header, then the old markdown and the final newline of C8) whatever its
  \<open>apiName\<close> and \<open>isReleaseNotes\<close> are, so also when \<open>isReleaseNotes\<close> is true; a page
  without it whose \<open>apiName\<close> is set gets the API-symbol text whatever \<open>isReleaseNotes\<close> is;
  the release-notes text is assigned only when neither is set.
\<close>

theorem precedence:
  assumes "count_list results r = 1"
  shows "(hardcodedFrontmatter (meta (store r)) = Some hf \<and> hf \<noteq> [] \<longrightarrow>
            markdown (addFrontMatter store results pkg r) = hardcodedText hf (markdown (store r)))
       \<and> (\<not> truthy (hardcodedFrontmatter (meta (store r))) \<and>
          apiName (meta (store r)) = Some name \<and> name \<noteq> [] \<longrightarrow>
            markdown (addFrontMatter store results pkg r) =
              apiText name (apiType (meta (store r))) (markdown (store r)))
       \<and> (\<not> truthy (hardcodedFrontmatter (meta (store r))) \<and>
          \<not> truthy (apiName (meta (store r))) \<and> isReleaseNotes (store r) \<longrightarrow>
            markdown (addFrontMatter store results pkg r) =
              releaseNotesText pkg (markdown (store r)))"
proof -
  have once: "addFrontMatter store results pkg r = addFrontMatter_body pkg (store r)"
    using assms by (rule addFrontMatter_once)
  have h: "markdown (addFrontMatter store results pkg r) = hardcodedText hf (markdown (store r))"
    if "hardcodedFrontmatter (meta (store r)) = Some hf" and "hf \<noteq> []"
    using that body_hardcoded [of "store r" pkg]
    by (simp add: once truthy_Some interpolate_Some)
  have a: "markdown (addFrontMatter store results pkg r) =
             apiText name (apiType (meta (store r))) (markdown (store r))"
    if "\<not> truthy (hardcodedFrontmatter (meta (store r)))"
      and "apiName (meta (store r)) = Some name" and "name \<noteq> []"
    using that body_api [of "store r" pkg]
    by (simp add: once truthy_Some interpolate_Some)
  have n: "markdown (addFrontMatter store results pkg r) = releaseNotesText pkg (markdown (store r))"
    if "\<not> truthy (hardcodedFrontmatter (meta (store r)))"
      and "\<not> truthy (apiName (meta (store r)))" and "isReleaseNotes (store r)"
    using that body_releaseNotes [of "store r" pkg]
    by (simp add: once)
  from h a n show ?thesis by blast
qed

text \<open>
  Three pages flagged as release notes: with a hardcoded header and an API name the
  hardcoded header wins, with an API name alone the API header wins, with neither the
  release-notes header is used.
\<close>

theorem precedence_witness:
  "markdown (addFrontMatter
      (\<lambda>_. \<lparr>markdown = ''# Hi'',
             meta = \<lparr>hardcodedFrontmatter = Some ''title: Hand written'',
                     apiName = Some ''qiskit.circuit.Measure'', apiType = Some ''class''\<rparr>,
             isReleaseNotes = True\<rparr>)
      [0] \<lparr>title = ''Qiskit'', versionWithoutPatch = ''0.45'', hasSeparateReleaseNotes = True\<rparr> 0)
   = ''---\<newline>title: Hand written\<newline>---\<newline>\<newline># Hi\<newline>''
   \<and>
   markdown (addFrontMatter
      (\<lambda>_. \<lparr>markdown = ''# Hi'',
             meta = \<lparr>hardcodedFrontmatter = None,
                     apiName = Some ''qiskit.circuit.Measure'', apiType = Some ''class''\<rparr>,
             isReleaseNotes = True\<rparr>)
      [0] \<lparr>title = ''Qiskit'', versionWithoutPatch = ''0.45'', hasSeparateReleaseNotes = True\<rparr> 0)
   = ''---\<newline>title: Measure\<newline>description: API reference for qiskit.circuit.Measure\<newline>in_page_toc_min_heading_level: 1\<newline>python_api_type: class\<newline>python_api_name: qiskit.circuit.Measure\<newline>---\<newline>\<newline># Hi\<newline>''
   \<and>
   markdown (addFrontMatter
      (\<lambda>_. \<lparr>markdown = ''# Hi'',
             meta = \<lparr>hardcodedFrontmatter = None, apiName = None, apiType = Some ''class''\<rparr>,
             isReleaseNotes = True\<rparr>)
      [0] \<lparr>title = ''Qiskit'', versionWithoutPatch = ''0.45'', hasSeparateReleaseNotes = True\<rparr> 0)
   = ''---\<newline>title: Qiskit 0.45 release notes\<newline>description: Changes made in Qiskit 0.45\<newline>in_page_toc_max_heading_level: 2\<newline>---\<newline>\<newline># Hi\<newline>''"
  using
    precedence [of "[0]" 0
      "\<lambda>_. \<lparr>markdown = ''# Hi'',
             meta = \<lparr>hardcodedFrontmatter = Some ''title: Hand written'',
                     apiName = Some ''qiskit.circuit.Measure'', apiType = Some ''class''\<rparr>,
             isReleaseNotes = True\<rparr>"
      "''title: Hand written''"
      "\<lparr>title = ''Qiskit'', versionWithoutPatch = ''0.45'', hasSeparateReleaseNotes = True\<rparr>"
      "''qiskit.circuit.Measure''"]
    precedence [of "[0]" 0
      "\<lambda>_. \<lparr>markdown = ''# Hi'',
             meta = \<lparr>hardcodedFrontmatter = None,
                     apiName = Some ''qiskit.circuit.Measure'', apiType = Some ''class''\<rparr>,
             isReleaseNotes = True\<rparr>"
      "''title: Hand written''"
      "\<lparr>title = ''Qiskit'', versionWithoutPatch = ''0.45'', hasSeparateReleaseNotes = True\<rparr>"
      "''qiskit.circuit.Measure''"]
    precedence [of "[0]" 0
      "\<lambda>_. \<lparr>markdown = ''# Hi'',
             meta = \<lparr>hardcodedFrontmatter = None, apiName = None, apiType = Some ''class''\<rparr>,
             isReleaseNotes = True\<rparr>"
      "''title: Hand written''"
      "\<lparr>title = ''Qiskit'', versionWithoutPatch = ''0.45'', hasSeparateReleaseNotes = True\<rparr>"
      "''qiskit.circuit.Measure''"]
  by (simp add: truthy_None truthy_Some hardcodedText_def apiText_def releaseNotesText_def
      interpolate_Some getLastPartFromFullIdentifier_def)

subsection \<open>C6: a second run adds a second header\<close>

text \<open>
  C6: the annotator is not idempotent. The first run leaves the metadata and the
  release-notes flag as they were, so a second run over the same array takes the same
  branch again: for every page that matches one of the three cases, the markdown after the
  second run is the text of that branch built around the markdown after the first run (the
  same header a second time, and a second final newline), and it differs from the markdown
  after the first run.
\<close>

theorem not_idempotent:
  assumes "count_list results r = 1"
  shows "meta (addFrontMatter store results pkg r) = meta (store r)
       \<and> isReleaseNotes (addFrontMatter store results pkg r) = isReleaseNotes (store r)
       \<and> (hardcodedFrontmatter (meta (store r)) = Some hf \<and> hf \<noteq> [] \<longrightarrow>
            markdown (addFrontMatter (addFrontMatter store results pkg) results pkg r) =
              hardcodedText hf (hardcodedText hf (markdown (store r))))
       \<and> (\<not> truthy (hardcodedFrontmatter (meta (store r))) \<and>
          apiName (meta (store r)) = Some name \<and> name \<noteq> [] \<longrightarrow>
            markdown (addFrontMatter (addFrontMatter store results pkg) results pkg r) =
              apiText name (apiType (meta (store r)))
                (apiText name (apiType (meta (store r))) (markdown (store r))))
       \<and> (\<not> truthy (hardcodedFrontmatter (meta (store r))) \<and>
          \<not> truthy (apiName (meta (store r))) \<and> isReleaseNotes (store r) \<longrightarrow>
            markdown (addFrontMatter (addFrontMatter store results pkg) results pkg r) =
              releaseNotesText pkg (releaseNotesText pkg (markdown (store r))))
       \<and> (truthy (hardcodedFrontmatter (meta (store r))) \<or> truthy (apiName (meta (store r))) \<or>
          isReleaseNotes (store r) \<longrightarrow>
            markdown (addFrontMatter (addFrontMatter store results pkg) results pkg r) \<noteq>
              markdown (addFrontMatter store results pkg r))"
proof -
  let ?x = "store r"
  let ?y = "addFrontMatter_body pkg ?x"
  have once: "addFrontMatter store results pkg r = ?y"
    using assms by (rule addFrontMatter_once)
  have twice: "addFrontMatter (addFrontMatter store results pkg) results pkg r =
                 addFrontMatter_body pkg ?y"
    using assms by (simp add: addFrontMatter_once)
  have h: "markdown (addFrontMatter_body pkg ?y) = hardcodedText hf (hardcodedText hf (markdown ?x))"
    if "hardcodedFrontmatter (meta ?x) = Some hf" and "hf \<noteq> []"
    using that body_hardcoded [of ?x pkg] body_hardcoded [of ?y pkg]
    by (simp add: body_meta truthy_Some interpolate_Some)
  have a: "markdown (addFrontMatter_body pkg ?y) =
             apiText name (apiType (meta ?x)) (apiText name (apiType (meta ?x)) (markdown ?x))"
    if "\<not> truthy (hardcodedFrontmatter (meta ?x))"
      and "apiName (meta ?x) = Some name" and "name \<noteq> []"
    using that body_api [of ?x pkg] body_api [of ?y pkg]
    by (simp add: body_meta truthy_Some interpolate_Some)
  have n: "markdown (addFrontMatter_body pkg ?y) =
             releaseNotesText pkg (releaseNotesText pkg (markdown ?x))"
    if "\<not> truthy (hardcodedFrontmatter (meta ?x))"
      and "\<not> truthy (apiName (meta ?x))" and "isReleaseNotes ?x"
    using that body_releaseNotes [of ?x pkg] body_releaseNotes [of ?y pkg]
    by (simp add: body_meta body_isReleaseNotes)
  have d: "markdown (addFrontMatter_body pkg ?y) \<noteq> markdown ?y"
    if m: "truthy (hardcodedFrontmatter (meta ?x)) \<or> truthy (apiName (meta ?x)) \<or> isReleaseNotes ?x"
  proof (cases "truthy (hardcodedFrontmatter (meta ?x))")
    case True
    then show ?thesis
      using body_hardcoded [of ?y pkg] by (simp add: body_meta hardcodedText_longer)
  next
    case nh: False
    show ?thesis
    proof (cases "truthy (apiName (meta ?x))")
      case True
      with nh show ?thesis
        using body_api [of ?y pkg] by (simp add: body_meta apiText_longer)
    next
      case False
      with nh m have "isReleaseNotes ?x" by simp
      with nh False show ?thesis
        using body_releaseNotes [of ?y pkg]
        by (simp add: body_meta body_isReleaseNotes releaseNotesText_longer)
    qed
  qed
  from h a n d show ?thesis
    unfolding once twice by (simp add: body_meta body_isReleaseNotes)
qed

text \<open>
  A page with a hardcoded header, annotated twice.
\<close>

theorem not_idempotent_witness:
  "markdown (addFrontMatter
      (addFrontMatter
        (\<lambda>_. \<lparr>markdown = ''# Hi'',
               meta = \<lparr>hardcodedFrontmatter = Some ''title: Hand written'', apiName = None,
                       apiType = None\<rparr>,
               isReleaseNotes = False\<rparr>)
        [0] \<lparr>title = ''Qiskit'', versionWithoutPatch = ''0.45'', hasSeparateReleaseNotes = True\<rparr>)
      [0] \<lparr>title = ''Qiskit'', versionWithoutPatch = ''0.45'', hasSeparateReleaseNotes = True\<rparr> 0)
   = ''---\<newline>title: Hand written\<newline>---\<newline>\<newline>---\<newline>title: Hand written\<newline>---\<newline>\<newline># Hi\<newline>\<newline>''
   \<and>
   markdown (addFrontMatter
      (addFrontMatter
        (\<lambda>_. \<lparr>markdown = ''# Hi'',
               meta = \<lparr>hardcodedFrontmatter = Some ''title: Hand written'', apiName = None,
                       apiType = None\<rparr>,
               isReleaseNotes = False\<rparr>)
        [0] \<lparr>title = ''Qiskit'', versionWithoutPatch = ''0.45'', hasSeparateReleaseNotes = True\<rparr>)
      [0] \<lparr>title = ''Qiskit'', versionWithoutPatch = ''0.45'', hasSeparateReleaseNotes = True\<rparr> 0)
   \<noteq>
   markdown (addFrontMatter
        (\<lambda>_. \<lparr>markdown = ''# Hi'',
               meta = \<lparr>hardcodedFrontmatter = Some ''title: Hand written'', apiName = None,
                       apiType = None\<rparr>,
               isReleaseNotes = False\<rparr>)
        [0] \<lparr>title = ''Qiskit'', versionWithoutPatch = ''0.45'', hasSeparateReleaseNotes = True\<rparr> 0)"
  using not_idempotent [of "[0]" 0
        "\<lambda>_. \<lparr>markdown = ''# Hi'',
               meta = \<lparr>hardcodedFrontmatter = Some ''title: Hand written'', apiName = None,
                       apiType = None\<rparr>,
               isReleaseNotes = False\<rparr>"
        "\<lparr>title = ''Qiskit'', versionWithoutPatch = ''0.45'', hasSeparateReleaseNotes = True\<rparr>"
        "''title: Hand written''" "''x''"]
  by (simp add: truthy_None truthy_Some hardcodedText_def addFrontMatter_body_def interpolate_Some)

subsection \<open>C7: frame and independence\<close>

text \<open>
  C7: for every store, array and package, \<open>addFrontMatter\<close> leaves the \<open>meta\<close> field, the
  \<open>isReleaseNotes\<close> flag and every further field of every page object as they were; a page
  that the array does not list is not touched at all. The page object behind \<open>r\<close> after the
  call is the loop body applied to the object before the call, once for each time the array
  lists \<open>r\<close>: it depends on that object, on the package and on nothing else in the store
  or the array. Two calls whose stores agree at \<open>r\<close> and whose arrays list \<open>r\<close> equally
  often give the same page. When the array lists no page twice, reading the array after the
  call gives, position by position, the loop body applied to what was there before: the
  length and the order are those of the array before the call. The array and the package are
  arguments that the function only reads.
\<close>

theorem frame_and_independence:
  "meta (addFrontMatter store results pkg r) = meta (store r)
   \<and> isReleaseNotes (addFrontMatter store results pkg r) = isReleaseNotes (store r)
   \<and> HtmlToMdResult.more (addFrontMatter store results pkg r) = HtmlToMdResult.more (store r)
   \<and> addFrontMatter store results pkg r =
       (addFrontMatter_body pkg ^^ count_list results r) (store r)
   \<and> (r \<notin> set results \<longrightarrow> addFrontMatter store results pkg r = store r)
   \<and> (count_list results r = 1 \<longrightarrow>
        addFrontMatter store results pkg r = addFrontMatter_body pkg (store r))
   \<and> (store' r = store r \<and> count_list results' r = count_list results r \<longrightarrow>
        addFrontMatter store' results' pkg r = addFrontMatter store results pkg r)
   \<and> (distinct results \<longrightarrow>
        map (addFrontMatter store results pkg) results =
        map (\<lambda>a. addFrontMatter_body pkg (store a)) results)"
proof -
  have cnt: "addFrontMatter store results pkg r =
               (addFrontMatter_body pkg ^^ count_list results r) (store r)"
    by (rule addFrontMatter_count)
  have out: "r \<notin> set results \<longrightarrow> addFrontMatter store results pkg r = store r"
    by (simp add: addFrontMatter_count count_notin)
  have one: "count_list results r = 1 \<longrightarrow>
               addFrontMatter store results pkg r = addFrontMatter_body pkg (store r)"
    by (simp add: addFrontMatter_once)
  have ind: "store' r = store r \<and> count_list results' r = count_list results r \<longrightarrow>
               addFrontMatter store' results' pkg r = addFrontMatter store results pkg r"
    by (simp add: addFrontMatter_count)
  have all: "distinct results \<longrightarrow>
               map (addFrontMatter store results pkg) results =
               map (\<lambda>a. addFrontMatter_body pkg (store a)) results"
    by (simp add: addFrontMatter_once count_list_distinct)
  from addFrontMatter_meta addFrontMatter_isReleaseNotes addFrontMatter_more cnt out one ind all
  show ?thesis by (intro conjI)
qed

text \<open>
  A store with a release-notes page, a page with a hardcoded header and plain pages; the
  array lists the first two. The page at reference 2 is not in the array and stays as it
  was, and the page at reference 0 comes out the same from a call on another store and
  array that agree on it.
\<close>

theorem frame_and_independence_witness:
  "map (addFrontMatter
      ((\<lambda>_. \<lparr>markdown = ''plain'',
              meta = \<lparr>hardcodedFrontmatter = None, apiName = None, apiType = None\<rparr>,
              isReleaseNotes = False\<rparr>)
        (0 := \<lparr>markdown = ''# Hi'',
               meta = \<lparr>hardcodedFrontmatter = Some ''title: Hand written'', apiName = None,
                       apiType = None\<rparr>,
               isReleaseNotes = False\<rparr>,
         1 := \<lparr>markdown = ''# Notes'',
               meta = \<lparr>hardcodedFrontmatter = None, apiName = None, apiType = None\<rparr>,
               isReleaseNotes = True\<rparr>))
      [1, 0] \<lparr>title = ''Qiskit'', versionWithoutPatch = ''0.45'', hasSeparateReleaseNotes = False\<rparr>)
      [1, 0, 2]
   = [\<lparr>markdown = ''---\<newline>title: Qiskit release notes\<newline>description: Changes made to Qiskit\<newline>in_page_toc_max_heading_level: 2\<newline>---\<newline>\<newline># Notes\<newline>'',
        meta = \<lparr>hardcodedFrontmatter = None, apiName = None, apiType = None\<rparr>,
        isReleaseNotes = True\<rparr>,
      \<lparr>markdown = ''---\<newline>title: Hand written\<newline>---\<newline>\<newline># Hi\<newline>'',
        meta = \<lparr>hardcodedFrontmatter = Some ''title: Hand written'', apiName = None,
                apiType = None\<rparr>,
        isReleaseNotes = False\<rparr>,
      \<lparr>markdown = ''plain'',
        meta = \<lparr>hardcodedFrontmatter = None, apiName = None, apiType = None\<rparr>,
        isReleaseNotes = False\<rparr>]
   \<and>
   addFrontMatter
      (\<lambda>_. \<lparr>markdown = ''# Hi'',
             meta = \<lparr>hardcodedFrontmatter = Some ''title: Hand written'', apiName = None,
                     apiType = None\<rparr>,
             isReleaseNotes = False\<rparr>)
      [0] \<lparr>title = ''Qiskit'', versionWithoutPatch = ''0.45'', hasSeparateReleaseNotes = False\<rparr> 0
   = addFrontMatter
      ((\<lambda>_. \<lparr>markdown = ''plain'',
              meta = \<lparr>hardcodedFrontmatter = None, apiName = None, apiType = None\<rparr>,
              isReleaseNotes = False\<rparr>)
        (0 := \<lparr>markdown = ''# Hi'',
               meta = \<lparr>hardcodedFrontmatter = Some ''title: Hand written'', apiName = None,
                       apiType = None\<rparr>,
               isReleaseNotes = False\<rparr>,
         1 := \<lparr>markdown = ''# Notes'',
               meta = \<lparr>hardcodedFrontmatter = None, apiName = None, apiType = None\<rparr>,
               isReleaseNotes = True\<rparr>))
      [1, 0] \<lparr>title = ''Qiskit'', versionWithoutPatch = ''0.45'', hasSeparateReleaseNotes = False\<rparr> 0"
  using
    frame_and_independence [of
      "(\<lambda>_. \<lparr>markdown = ''plain'',
              meta = \<lparr>hardcodedFrontmatter = None, apiName = None, apiType = None\<rparr>,
              isReleaseNotes = False\<rparr>)
        (0 := \<lparr>markdown = ''# Hi'',
               meta = \<lparr>hardcodedFrontmatter = Some ''title: Hand written'', apiName = None,
                       apiType = None\<rparr>,
               isReleaseNotes = False\<rparr>,
         1 := \<lparr>markdown = ''# Notes'',
               meta = \<lparr>hardcodedFrontmatter = None, apiName = None, apiType = None\<rparr>,
               isReleaseNotes = True\<rparr>)"
      "[1, 0]"
      "\<lparr>title = ''Qiskit'', versionWithoutPatch = ''0.45'', hasSeparateReleaseNotes = False\<rparr>"
      2]
    frame_and_independence [of
      "(\<lambda>_. \<lparr>markdown = ''plain'',
              meta = \<lparr>hardcodedFrontmatter = None, apiName = None, apiType = None\<rparr>,
              isReleaseNotes = False\<rparr>)
        (0 := \<lparr>markdown = ''# Hi'',
               meta = \<lparr>hardcodedFrontmatter = Some ''title: Hand written'', apiName = None,
                       apiType = None\<rparr>,
               isReleaseNotes = False\<rparr>,
         1 := \<lparr>markdown = ''# Notes'',
               meta = \<lparr>hardcodedFrontmatter = None, apiName = None, apiType = None\<rparr>,
               isReleaseNotes = True\<rparr>)"
      "[1, 0]"
      "\<lparr>title = ''Qiskit'', versionWithoutPatch = ''0.45'', hasSeparateReleaseNotes = False\<rparr>"
      0
      "\<lambda>_. \<lparr>markdown = ''# Hi'',
             meta = \<lparr>hardcodedFrontmatter = Some ''title: Hand written'', apiName = None,
                     apiType = None\<rparr>,
             isReleaseNotes = False\<rparr>"
      "[0]"]
  by (simp add: addFrontMatter_body_def truthy_None truthy_Some interpolate_Some)

subsection \<open>C8: the final newline\<close>

text \<open>
  C8: in each of the three annotating branches the new markdown is the header of that
  branch (from the opening line of three dashes to the closing one), two newlines, the old
  markdown and exactly one newline. So the new markdown ends with the old markdown followed
  by a newline, and it is not the header and the blank line put in front of the unchanged
  markdown.
\<close>

theorem trailing_newline:
  assumes "count_list results r = 1"
    and "truthy (hardcodedFrontmatter (meta (store r))) \<or> truthy (apiName (meta (store r))) \<or>
         isReleaseNotes (store r)"
  shows "\<exists>header.
          (hardcodedFrontmatter (meta (store r)) = Some hf \<and> hf \<noteq> [] \<longrightarrow>
             header = ''---\<newline>'' @ hf @ ''\<newline>---'')
        \<and> (\<not> truthy (hardcodedFrontmatter (meta (store r))) \<and>
           apiName (meta (store r)) = Some name \<and> name \<noteq> [] \<longrightarrow>
             header =
               ''---\<newline>'' @
               ''title: '' @ getLastPartFromFullIdentifier name @ ''\<newline>'' @
               ''description: API reference for '' @ name @ ''\<newline>'' @
               ''in_page_toc_min_heading_level: 1\<newline>'' @
               ''python_api_type: '' @ interpolate (apiType (meta (store r))) @ ''\<newline>'' @
               ''python_api_name: '' @ name @ ''\<newline>'' @
               ''---'')
        \<and> (\<not> truthy (hardcodedFrontmatter (meta (store r))) \<and>
           \<not> truthy (apiName (meta (store r))) \<and> isReleaseNotes (store r) \<longrightarrow>
             header =
               ''---\<newline>'' @
               ''title: '' @ title pkg @
                 (if hasSeparateReleaseNotes pkg then '' '' @ versionWithoutPatch pkg else []) @
                 '' release notes\<newline>'' @
               ''description: Changes made '' @
                 (if hasSeparateReleaseNotes pkg
                  then ''in '' @ title pkg @ '' '' @ versionWithoutPatch pkg
                  else ''to '' @ title pkg) @ ''\<newline>'' @
               ''in_page_toc_max_heading_level: 2\<newline>'' @
               ''---'')
        \<and> markdown (addFrontMatter store results pkg r) =
            header @ ''\<newline>\<newline>'' @ markdown (store r) @ ''\<newline>''
        \<and> markdown (addFrontMatter store results pkg r) \<noteq>
            header @ ''\<newline>\<newline>'' @ markdown (store r)
        \<and> suffix (markdown (store r) @ ''\<newline>'') (markdown (addFrontMatter store results pkg r))"
proof -
  let ?x = "store r"
  have once: "addFrontMatter store results pkg r = addFrontMatter_body pkg ?x"
    using assms(1) by (rule addFrontMatter_once)
  have fin: "md' \<noteq> header @ ''\<newline>\<newline>'' @ md0 \<and> suffix (md0 @ ''\<newline>'') md'"
    if e: "md' = header @ ''\<newline>\<newline>'' @ md0 @ ''\<newline>''"
    for header md' md0 :: string
  proof -
    have "md' \<noteq> header @ ''\<newline>\<newline>'' @ md0"
      unfolding e by simp
    moreover have "suffix (md0 @ ''\<newline>'') md'"
      unfolding e suffix_def by (intro exI [of _ "header @ ''\<newline>\<newline>''"]) simp
    ultimately show ?thesis by blast
  qed
  show ?thesis
  proof (cases "truthy (hardcodedFrontmatter (meta ?x))")
    case h: True
    have e: "markdown (addFrontMatter_body pkg ?x) =
            (''---\<newline>'' @ interpolate (hardcodedFrontmatter (meta ?x)) @ ''\<newline>---'') @
            ''\<newline>\<newline>'' @ markdown ?x @ ''\<newline>''"
      using h by (simp add: body_hardcoded hardcodedText_def)
    from h e fin [OF e] show ?thesis
      unfolding once
      by (intro exI [of _ "''---\<newline>'' @ interpolate (hardcodedFrontmatter (meta ?x)) @ ''\<newline>---''"])
        (auto simp: interpolate_Some)
  next
    case nh: False
    show ?thesis
    proof (cases "truthy (apiName (meta ?x))")
      case a: True
      have e: "markdown (addFrontMatter_body pkg ?x) =
              (''---\<newline>'' @
               ''title: '' @ getLastPartFromFullIdentifier (interpolate (apiName (meta ?x))) @ ''\<newline>'' @
               ''description: API reference for '' @ interpolate (apiName (meta ?x)) @ ''\<newline>'' @
               ''in_page_toc_min_heading_level: 1\<newline>'' @
               ''python_api_type: '' @ interpolate (apiType (meta ?x)) @ ''\<newline>'' @
               ''python_api_name: '' @ interpolate (apiName (meta ?x)) @ ''\<newline>'' @
               ''---'') @
              ''\<newline>\<newline>'' @ markdown ?x @ ''\<newline>''"
        using nh a by (simp add: body_api apiText_def)
      from nh a e fin [OF e] show ?thesis
        unfolding once
        by (intro exI [of _ "''---\<newline>'' @
               ''title: '' @ getLastPartFromFullIdentifier (interpolate (apiName (meta ?x))) @ ''\<newline>'' @
               ''description: API reference for '' @ interpolate (apiName (meta ?x)) @ ''\<newline>'' @
               ''in_page_toc_min_heading_level: 1\<newline>'' @
               ''python_api_type: '' @ interpolate (apiType (meta ?x)) @ ''\<newline>'' @
               ''python_api_name: '' @ interpolate (apiName (meta ?x)) @ ''\<newline>'' @
               ''---''"])
          (auto simp: interpolate_Some truthy_Some)
    next
      case na: False
      with nh assms(2) have n: "isReleaseNotes ?x" by simp
      have e: "markdown (addFrontMatter_body pkg ?x) =
              (''---\<newline>'' @
               ''title: '' @ title pkg @
                 (if hasSeparateReleaseNotes pkg then '' '' @ versionWithoutPatch pkg else []) @
                 '' release notes\<newline>'' @
               ''description: Changes made '' @
                 (if hasSeparateReleaseNotes pkg
                  then ''in '' @ title pkg @ '' '' @ versionWithoutPatch pkg
                  else ''to '' @ title pkg) @ ''\<newline>'' @
               ''in_page_toc_max_heading_level: 2\<newline>'' @
               ''---'') @
              ''\<newline>\<newline>'' @ markdown ?x @ ''\<newline>''"
        using nh na n by (simp add: body_releaseNotes releaseNotesText_def)
      from nh na n e fin [OF e] show ?thesis
        unfolding once
        by (intro exI [of _ "''---\<newline>'' @
               ''title: '' @ title pkg @
                 (if hasSeparateReleaseNotes pkg then '' '' @ versionWithoutPatch pkg else []) @
                 '' release notes\<newline>'' @
               ''description: Changes made '' @
                 (if hasSeparateReleaseNotes pkg
                  then ''in '' @ title pkg @ '' '' @ versionWithoutPatch pkg
                  else ''to '' @ title pkg) @ ''\<newline>'' @
               ''in_page_toc_max_heading_level: 2\<newline>'' @
               ''---''"])
          (auto simp: truthy_Some)
    qed
  qed
qed

text \<open>
  The page \<open># Hi\<close> with a hardcoded header.
\<close>

theorem trailing_newline_witness:
  "markdown (addFrontMatter
      (\<lambda>_. \<lparr>markdown = ''# Hi'',
             meta = \<lparr>hardcodedFrontmatter = Some ''title: Hand written'', apiName = None,
                     apiType = None\<rparr>,
             isReleaseNotes = False\<rparr>)
      [0] \<lparr>title = ''Qiskit'', versionWithoutPatch = ''0.45'', hasSeparateReleaseNotes = True\<rparr> 0)
   = ''---\<newline>title: Hand written\<newline>---'' @ ''\<newline>\<newline>'' @ ''# Hi'' @ ''\<newline>''
   \<and>
   markdown (addFrontMatter
      (\<lambda>_. \<lparr>markdown = ''# Hi'',
             meta = \<lparr>hardcodedFrontmatter = Some ''title: Hand written'', apiName = None,
                     apiType = None\<rparr>,
             isReleaseNotes = False\<rparr>)
      [0] \<lparr>title = ''Qiskit'', versionWithoutPatch = ''0.45'', hasSeparateReleaseNotes = True\<rparr> 0)
   \<noteq> ''---\<newline>title: Hand written\<newline>---'' @ ''\<newline>\<newline>'' @ ''# Hi''
   \<and>
   suffix (''# Hi'' @ ''\<newline>'')
     (markdown (addFrontMatter
      (\<lambda>_. \<lparr>markdown = ''# Hi'',
             meta = \<lparr>hardcodedFrontmatter = Some ''title: Hand written'', apiName = None,
                     apiType = None\<rparr>,
             isReleaseNotes = False\<rparr>)
      [0] \<lparr>title = ''Qiskit'', versionWithoutPatch = ''0.45'', hasSeparateReleaseNotes = True\<rparr> 0))"
  using trailing_newline [of "[0]" 0
      "\<lambda>_. \<lparr>markdown = ''# Hi'',
             meta = \<lparr>hardcodedFrontmatter = Some ''title: Hand written'', apiName = None,
                     apiType = None\<rparr>,
             isReleaseNotes = False\<rparr>"
      "''title: Hand written''" "''a.b''"
      "\<lparr>title = ''Qiskit'', versionWithoutPatch = ''0.45'', hasSeparateReleaseNotes = True\<rparr>"]
  by (simp add: truthy_None truthy_Some suffix_to_prefix)

subsection \<open>C9: empty strings are not set\<close>

text \<open>
  C9: the tests are truthiness tests. A page whose \<open>hardcodedFrontmatter\<close> is the empty
  string is not handled by the hardcoded case: its new markdown is not the hardcoded text,
  and it is what the \<open>apiName\<close> test and the tests after it decide (the API-symbol text
  when \<open>apiName\<close> is set, else the release-notes text when the page is flagged, else the
  old markdown). Likewise a page with \<open>hardcodedFrontmatter\<close> not set whose \<open>apiName\<close> is
  the empty string is not given the API-symbol text: it gets the release-notes text when it
  is flagged as release notes and keeps its markdown otherwise.
\<close>

theorem empty_string_falls_through:
  assumes "count_list results r = 1"
  shows "(hardcodedFrontmatter (meta (store r)) = Some [] \<and>
          apiName (meta (store r)) = Some name \<and> name \<noteq> [] \<longrightarrow>
            markdown (addFrontMatter store results pkg r) =
              apiText name (apiType (meta (store r))) (markdown (store r)))
       \<and> (hardcodedFrontmatter (meta (store r)) = Some [] \<and>
          \<not> truthy (apiName (meta (store r))) \<and> isReleaseNotes (store r) \<longrightarrow>
            markdown (addFrontMatter store results pkg r) =
              releaseNotesText pkg (markdown (store r)))
       \<and> (hardcodedFrontmatter (meta (store r)) = Some [] \<and>
          \<not> truthy (apiName (meta (store r))) \<and> \<not> isReleaseNotes (store r) \<longrightarrow>
            markdown (addFrontMatter store results pkg r) = markdown (store r))
       \<and> (hardcodedFrontmatter (meta (store r)) = Some [] \<longrightarrow>
            markdown (addFrontMatter store results pkg r) \<noteq> hardcodedText [] (markdown (store r)))
       \<and> (\<not> truthy (hardcodedFrontmatter (meta (store r))) \<and>
          apiName (meta (store r)) = Some [] \<and> isReleaseNotes (store r) \<longrightarrow>
            markdown (addFrontMatter store results pkg r) =
              releaseNotesText pkg (markdown (store r)))
       \<and> (\<not> truthy (hardcodedFrontmatter (meta (store r))) \<and>
          apiName (meta (store r)) = Some [] \<and> \<not> isReleaseNotes (store r) \<longrightarrow>
            markdown (addFrontMatter store results pkg r) = markdown (store r))
       \<and> (\<not> truthy (hardcodedFrontmatter (meta (store r))) \<and>
          apiName (meta (store r)) = Some [] \<longrightarrow>
            markdown (addFrontMatter store results pkg r) \<noteq>
              apiText [] (apiType (meta (store r))) (markdown (store r)))"
proof -
  let ?x = "store r"
  let ?md' = "markdown (addFrontMatter_body pkg ?x)"
  have once: "addFrontMatter store results pkg r = addFrontMatter_body pkg ?x"
    using assms by (rule addFrontMatter_once)
  have a: "?md' = apiText name (apiType (meta ?x)) (markdown ?x)"
    if "\<not> truthy (hardcodedFrontmatter (meta ?x))"
      and "apiName (meta ?x) = Some name" and "name \<noteq> []" for name
    using that body_api [of ?x pkg] by (simp add: truthy_Some interpolate_Some)
  have n: "?md' = releaseNotesText pkg (markdown ?x)"
    if "\<not> truthy (hardcodedFrontmatter (meta ?x))"
      and "\<not> truthy (apiName (meta ?x))" and "isReleaseNotes ?x"
    using that by (rule body_releaseNotes)
  have p: "?md' = markdown ?x"
    if "\<not> truthy (hardcodedFrontmatter (meta ?x))"
      and "\<not> truthy (apiName (meta ?x))" and "\<not> isReleaseNotes ?x"
    using that by (simp add: body_passthrough)
  have nh: "?md' \<noteq> hardcodedText [] (markdown ?x)"
    if f: "\<not> truthy (hardcodedFrontmatter (meta ?x))"
  proof (cases "truthy (apiName (meta ?x))")
    case True
    with f show ?thesis
      by (simp add: body_api apiText_not_hardcodedText_empty)
  next
    case False
    with f show ?thesis
      using n p hardcodedText_longer [of "[]" "markdown ?x"]
      by (cases "isReleaseNotes ?x") (simp_all add: releaseNotesText_not_hardcodedText_empty)
  qed
  have na: "?md' \<noteq> apiText [] (apiType (meta ?x)) (markdown ?x)"
    if f: "\<not> truthy (hardcodedFrontmatter (meta ?x))" and g: "\<not> truthy (apiName (meta ?x))"
    using n [OF f g] p [OF f g] apiText_longer [of "[]" "apiType (meta ?x)" "markdown ?x"]
    by (cases "isReleaseNotes ?x") (simp_all add: releaseNotesText_not_apiText_empty)
  from a n p nh na show ?thesis
    unfolding once by (simp add: truthy_Some)
qed

text \<open>
  Three pages with an empty \<open>hardcodedFrontmatter\<close>: one with an API name, and two with
  an empty \<open>apiName\<close>, flagged as release notes and not.
\<close>

theorem empty_string_falls_through_witness:
  "markdown (addFrontMatter
      (\<lambda>_. \<lparr>markdown = ''# Hi'',
             meta = \<lparr>hardcodedFrontmatter = Some [], apiName = Some ''a.b.C'',
                     apiType = Some ''class''\<rparr>,
             isReleaseNotes = False\<rparr>)
      [0] \<lparr>title = ''Qiskit'', versionWithoutPatch = ''0.45'', hasSeparateReleaseNotes = False\<rparr> 0)
   = ''---\<newline>title: C\<newline>description: API reference for a.b.C\<newline>in_page_toc_min_heading_level: 1\<newline>python_api_type: class\<newline>python_api_name: a.b.C\<newline>---\<newline>\<newline># Hi\<newline>''
   \<and>
   markdown (addFrontMatter
      (\<lambda>_. \<lparr>markdown = ''# Hi'',
             meta = \<lparr>hardcodedFrontmatter = Some [], apiName = Some [], apiType = Some ''class''\<rparr>,
             isReleaseNotes = True\<rparr>)
      [0] \<lparr>title = ''Qiskit'', versionWithoutPatch = ''0.45'', hasSeparateReleaseNotes = False\<rparr> 0)
   = ''---\<newline>title: Qiskit release notes\<newline>description: Changes made to Qiskit\<newline>in_page_toc_max_heading_level: 2\<newline>---\<newline>\<newline># Hi\<newline>''
   \<and>
   markdown (addFrontMatter
      (\<lambda>_. \<lparr>markdown = ''# Hi'',
             meta = \<lparr>hardcodedFrontmatter = Some [], apiName = Some [], apiType = Some ''class''\<rparr>,
             isReleaseNotes = False\<rparr>)
      [0] \<lparr>title = ''Qiskit'', versionWithoutPatch = ''0.45'', hasSeparateReleaseNotes = False\<rparr> 0)
   = ''# Hi''"
  using
    empty_string_falls_through [of "[0]" 0
      "\<lambda>_. \<lparr>markdown = ''# Hi'',
             meta = \<lparr>hardcodedFrontmatter = Some [], apiName = Some ''a.b.C'',
                     apiType = Some ''class''\<rparr>,
             isReleaseNotes = False\<rparr>"
      "''a.b.C''"
      "\<lparr>title = ''Qiskit'', versionWithoutPatch = ''0.45'', hasSeparateReleaseNotes = False\<rparr>"]
    empty_string_falls_through [of "[0]" 0
      "\<lambda>_. \<lparr>markdown = ''# Hi'',
             meta = \<lparr>hardcodedFrontmatter = Some [], apiName = Some [], apiType = Some ''class''\<rparr>,
             isReleaseNotes = True\<rparr>"
      "''a.b.C''"
      "\<lparr>title = ''Qiskit'', versionWithoutPatch = ''0.45'', hasSeparateReleaseNotes = False\<rparr>"]
    empty_string_falls_through [of "[0]" 0
      "\<lambda>_. \<lparr>markdown = ''# Hi'',
             meta = \<lparr>hardcodedFrontmatter = Some [], apiName = Some [], apiType = Some ''class''\<rparr>,
             isReleaseNotes = False\<rparr>"
      "''a.b.C''"
      "\<lparr>title = ''Qiskit'', versionWithoutPatch = ''0.45'', hasSeparateReleaseNotes = False\<rparr>"]
  by (simp add: truthy_Some apiText_def releaseNotesText_def interpolate_Some
      getLastPartFromFullIdentifier_def)

subsection \<open>C10: the kind of the symbol is not checked\<close>

text \<open>
  C10: the API-symbol branch does not validate \<open>apiType\<close>. For every page that reaches the
  branch (\<open>hardcodedFrontmatter\<close> not set, \<open>apiName\<close> not empty) the header is emitted, and
  its \<open>python_api_type\<close> line holds the value of \<open>apiType\<close> as it is, whatever string that
  is; for a missing \<open>apiType\<close> the template literal renders the text \<open>undefined\<close>.
\<close>

theorem api_type_not_validated:
  assumes "count_list results r = 1"
    and "\<not> truthy (hardcodedFrontmatter (meta (store r)))"
    and "apiName (meta (store r)) = Some name" and "name \<noteq> []"
  shows "markdown (addFrontMatter store results pkg r) =
           ''---\<newline>'' @
           ''title: '' @ getLastPartFromFullIdentifier name @ ''\<newline>'' @
           ''description: API reference for '' @ name @ ''\<newline>'' @
           ''in_page_toc_min_heading_level: 1\<newline>'' @
           ''python_api_type: '' @
             (case apiType (meta (store r)) of None \<Rightarrow> ''undefined'' | Some ty \<Rightarrow> ty) @
             ''\<newline>'' @
           ''python_api_name: '' @ name @ ''\<newline>'' @
           ''---\<newline>'' @
           ''\<newline>'' @
           markdown (store r) @ ''\<newline>''"
proof -
  from assms(3,4) have t: "truthy (apiName (meta (store r)))"
    by (simp add: truthy_Some)
  have "markdown (addFrontMatter store results pkg r) =
          apiText name (apiType (meta (store r))) (markdown (store r))"
    using body_api [OF assms(2) t, of pkg] assms(1,3)
    by (simp add: addFrontMatter_once interpolate_Some)
  then show ?thesis
    by (simp only: apiText_def interpolate_def) simp
qed

text \<open>
  A kind outside the seven documented ones, and a missing kind.
\<close>

theorem api_type_not_validated_witness:
  "markdown (addFrontMatter
      (\<lambda>_. \<lparr>markdown = ''# Hi'',
             meta = \<lparr>hardcodedFrontmatter = None, apiName = Some ''a.b.C'',
                     apiType = Some ''no such kind''\<rparr>,
             isReleaseNotes = False\<rparr>)
      [0] \<lparr>title = ''Qiskit'', versionWithoutPatch = ''0.45'', hasSeparateReleaseNotes = True\<rparr> 0)
   = ''---\<newline>title: C\<newline>description: API reference for a.b.C\<newline>in_page_toc_min_heading_level: 1\<newline>python_api_type: no such kind\<newline>python_api_name: a.b.C\<newline>---\<newline>\<newline># Hi\<newline>''
   \<and>
   markdown (addFrontMatter
      (\<lambda>_. \<lparr>markdown = ''# Hi'',
             meta = \<lparr>hardcodedFrontmatter = None, apiName = Some ''a.b.C'', apiType = None\<rparr>,
             isReleaseNotes = False\<rparr>)
      [0] \<lparr>title = ''Qiskit'', versionWithoutPatch = ''0.45'', hasSeparateReleaseNotes = True\<rparr> 0)
   = ''---\<newline>title: C\<newline>description: API reference for a.b.C\<newline>in_page_toc_min_heading_level: 1\<newline>python_api_type: undefined\<newline>python_api_name: a.b.C\<newline>---\<newline>\<newline># Hi\<newline>''"
  using
    api_type_not_validated [of "[0]" 0
      "\<lambda>_. \<lparr>markdown = ''# Hi'',
             meta = \<lparr>hardcodedFrontmatter = None, apiName = Some ''a.b.C'',
                     apiType = Some ''no such kind''\<rparr>,
             isReleaseNotes = False\<rparr>"
      "''a.b.C''"
      "\<lparr>title = ''Qiskit'', versionWithoutPatch = ''0.45'', hasSeparateReleaseNotes = True\<rparr>"]
    api_type_not_validated [of "[0]" 0
      "\<lambda>_. \<lparr>markdown = ''# Hi'',
             meta = \<lparr>hardcodedFrontmatter = None, apiName = Some ''a.b.C'', apiType = None\<rparr>,
             isReleaseNotes = False\<rparr>"
      "''a.b.C''"
      "\<lparr>title = ''Qiskit'', versionWithoutPatch = ''0.45'', hasSeparateReleaseNotes = True\<rparr>"]
  by (simp add: truthy_None getLastPartFromFullIdentifier_def)

end
